theory Spec2Isabelle
  imports Complex_Main "HOL-Library.Sublist" "HOL-Library.AList" "HOL-Library.Multiset"
begin

section \<open>Values, errors and the string primitives of the source language\<close>

text \<open>
  Exceptions are values. \<open>LibraryError\<close> stands for any exception raised inside an external
  library (text splitter, embedding model, vector database, PDF reader, language model);
  \<open>str_error\<close> is what \<open>str(e)\<close> prints.
\<close>

datatype error = ZeroDivisionError | KeyError string | LibraryError string

fun str_error :: "error \<Rightarrow> string" where
  "str_error ZeroDivisionError = ''division by zero''"
| "str_error (KeyError k) = [CHR 0x27] @ k @ [CHR 0x27]"
| "str_error (LibraryError m) = m"

text \<open>
  Strings are lists of characters, one \<open>char\<close> for one code point; the model covers the
  code points below 256. \<open>isspace\<close> and \<open>lower_char\<close> are the language's own tables on that
  range.
\<close>

definition isspace :: "char \<Rightarrow> bool" where
  "isspace c = (let n = (of_char c :: nat) in
     (9 \<le> n \<and> n \<le> 13) \<or> (28 \<le> n \<and> n \<le> 32) \<or> n = 133 \<or> n = 160)"

definition lower_char :: "char \<Rightarrow> char" where
  "lower_char c = (let n = (of_char c :: nat) in
     if (65 \<le> n \<and> n \<le> 90) \<or> (192 \<le> n \<and> n \<le> 222 \<and> n \<noteq> 215)
     then char_of (n + 32) else c)"

definition str_lower :: "string \<Rightarrow> string" where
  "str_lower s = map lower_char s"

text \<open>\<open>s.split()\<close>: the maximal runs of non-whitespace characters, in order.\<close>

fun split_from :: "string \<Rightarrow> string \<Rightarrow> string list" where
  "split_from w [] = (if w = [] then [] else [w])"
| "split_from w (c # cs) =
     (if isspace c then (if w = [] then split_from [] cs else w # split_from [] cs)
      else split_from (w @ [c]) cs)"

definition str_split :: "string \<Rightarrow> string list" where
  "str_split s = split_from [] s"

text \<open>\<open>s.strip()\<close>: leading and trailing whitespace removed.\<close>

definition str_strip :: "string \<Rightarrow> string" where
  "str_strip s = rev (dropWhile isspace (rev (dropWhile isspace s)))"

definition startswith :: "string \<Rightarrow> string \<Rightarrow> bool" where
  "startswith s p = (take (length p) s = p)"

definition endswith :: "string \<Rightarrow> string \<Rightarrow> bool" where
  "endswith s p = (length p \<le> length s \<and> drop (length s - length p) s = p)"

text \<open>\<open>sep.join(parts)\<close>.\<close>

fun str_join :: "string \<Rightarrow> string list \<Rightarrow> string" where
  "str_join sep [] = []"
| "str_join sep [p] = p"
| "str_join sep (p # q # ps) = p @ sep @ str_join sep (q # ps)"

text \<open>\<open>text.split('. ')\<close>: the pieces between non-overlapping occurrences of the separator.\<close>

fun split_sentences_from :: "string \<Rightarrow> string \<Rightarrow> string list" where
  "split_sentences_from w [] = [w]"
| "split_sentences_from w [c] = [w @ [c]]"
| "split_sentences_from w (c # d # cs) =
     (if c = CHR ''.'' \<and> d = CHR '' '' then w # split_sentences_from [] cs
      else split_sentences_from (w @ [c]) (d # cs))"

text \<open>Decimal printing of integers, as \<open>str(n)\<close> and \<open>f"{n}"\<close> do.\<close>

fun str_nat :: "nat \<Rightarrow> string" where
  "str_nat n = (if n < 10 then [char_of (48 + n)]
                else str_nat (n div 10) @ [char_of (48 + n mod 10)])"

definition str_int :: "int \<Rightarrow> string" where
  "str_int i = (if i < 0 then ''-'' @ str_nat (nat (- i)) else str_nat (nat i))"

definition NL :: string where
  "NL = [CHR 0x0A]"

section \<open>Chunk records and retrieved snippets\<close>

datatype mval = VStr string | VInt int | VBool bool

fun str_mval :: "mval \<Rightarrow> string" where
  "str_mval (VStr s) = s"
| "str_mval (VInt i) = str_int i"
| "str_mval (VBool b) = (if b then ''True'' else ''False'')"

text \<open>
  A metadata dictionary is an association list in insertion order; \<open>AList.update\<close> overwrites
  an existing key in place and appends a new one, as a dictionary display with \<open>**metadata\<close>
  and as item assignment do.
\<close>

type_synonym metadata = "(string \<times> mval) list"

record chunk =
  content :: string
  metadata :: metadata

text \<open>A retrieved snippet: a chunk with the scores the retrieval strategies attach.\<close>

record doc = chunk +
  similarity_score :: "rat option"
  hybrid_score :: "rat option"
  relevance_score :: "rat option"

section \<open>Chunking strategies (services/chunking\_strategies.py)\<close>

text \<open>
  The text splitters are library objects: a splitter maps a text to its pieces or raises.
\<close>

type_synonym splitter = "string \<Rightarrow> error + string list"

record RecursiveChunkingStrategy =
  text_splitter :: splitter

record SemanticChunkingStrategy =
  semantic_chunker :: splitter

record ContextualChunkingStrategy =
  base_chunker :: splitter

record HybridChunkingStrategy =
  recursive_strategy :: RecursiveChunkingStrategy
  semantic_strategy :: SemanticChunkingStrategy

definition RecursiveChunkingStrategy_chunk_text ::
  "RecursiveChunkingStrategy \<Rightarrow> string \<Rightarrow> metadata \<Rightarrow> error + chunk list" where
  "RecursiveChunkingStrategy_chunk_text self txt meta =
     (case text_splitter self txt of
        Inl e \<Rightarrow> Inl e
      | Inr chunks \<Rightarrow>
          Inr (map (\<lambda>(i, c).
                 \<lparr>content = c,
                  metadata =
                    AList.update ''chunking_strategy'' (VStr ''recursive'')
                      (AList.update ''chunk_size'' (VInt (int (length c)))
                        (AList.update ''chunk_id'' (VInt (int i)) meta))\<rparr>)
               (enumerate 0 chunks)))"

definition SemanticChunkingStrategy_chunk_text ::
  "SemanticChunkingStrategy \<Rightarrow> string \<Rightarrow> metadata \<Rightarrow> error + chunk list" where
  "SemanticChunkingStrategy_chunk_text self txt meta =
     (case semantic_chunker self txt of
        Inl e \<Rightarrow> Inl e
      | Inr chunks \<Rightarrow>
          Inr (map (\<lambda>(i, c).
                 \<lparr>content = c,
                  metadata =
                    AList.update ''chunking_strategy'' (VStr ''semantic'')
                      (AList.update ''chunk_size'' (VInt (int (length c)))
                        (AList.update ''chunk_id'' (VInt (int i)) meta))\<rparr>)
               (enumerate 0 chunks)))"

definition create_document_summary :: "string \<Rightarrow> metadata \<Rightarrow> string" where
  "create_document_summary txt meta =
     (let sentences = take 3 (split_sentences_from [] txt);
          summary = str_join ''. '' sentences;
          doc_info = ''Document: '' @
            (case map_of meta ''filename'' of Some v \<Rightarrow> str_mval v | None \<Rightarrow> ''Unknown'');
          doc_info = (case map_of meta ''page_number'' of
                        Some p \<Rightarrow> doc_info @ '', Page: '' @ str_mval p
                      | None \<Rightarrow> doc_info)
      in doc_info @ NL @ ''Summary: '' @ summary)"

definition add_context_to_chunk :: "string \<Rightarrow> string \<Rightarrow> nat \<Rightarrow> nat \<Rightarrow> string" where
  "add_context_to_chunk c doc_summary chunk_idx total_chunks =
     (''[Context: This is chunk '' @ str_nat (chunk_idx + 1) @ '' of '' @ str_nat total_chunks
        @ '' from the document]'' @ NL
        @ doc_summary @ NL
        @ ''[Chunk Content:]'' @ NL) @ c"

definition ContextualChunkingStrategy_chunk_text ::
  "ContextualChunkingStrategy \<Rightarrow> string \<Rightarrow> metadata \<Rightarrow> error + chunk list" where
  "ContextualChunkingStrategy_chunk_text self txt meta =
     (let doc_summary = create_document_summary txt meta in
      case base_chunker self txt of
        Inl e \<Rightarrow> Inl e
      | Inr base_chunks \<Rightarrow>
          Inr (map (\<lambda>(i, c).
                 let contextual_chunk = add_context_to_chunk c doc_summary i (length base_chunks)
                 in \<lparr>content = contextual_chunk,
                     metadata =
                       AList.update ''has_context'' (VBool True)
                         (AList.update ''chunking_strategy'' (VStr ''contextual'')
                           (AList.update ''chunk_size'' (VInt (int (length contextual_chunk)))
                             (AList.update ''chunk_id'' (VInt (int i)) meta)))\<rparr>)
               (enumerate 0 base_chunks)))"

text \<open>
  The hybrid strategy. The body of its \<open>try\<close> is \<open>hybrid_body\<close>; any exception raised there is
  caught and answered with the recursive strategy's own result.
\<close>

definition hybrid_retag :: "chunk \<Rightarrow> chunk" where
  "hybrid_retag c = c\<lparr>metadata := AList.update ''chunking_strategy'' (VStr ''hybrid'') (metadata c)\<rparr>"

definition hybrid_body ::
  "HybridChunkingStrategy \<Rightarrow> string \<Rightarrow> metadata \<Rightarrow> error + chunk list" where
  "hybrid_body self txt meta =
     (let text_length = length txt in
      case (if text_length > 10000
            then SemanticChunkingStrategy_chunk_text (semantic_strategy self) txt meta
            else RecursiveChunkingStrategy_chunk_text (recursive_strategy self) txt meta) of
        Inl e \<Rightarrow> Inl e
      | Inr chunks \<Rightarrow> Inr (map hybrid_retag chunks))"

definition HybridChunkingStrategy_chunk_text ::
  "HybridChunkingStrategy \<Rightarrow> string \<Rightarrow> metadata \<Rightarrow> error + chunk list" where
  "HybridChunkingStrategy_chunk_text self txt meta =
     (case hybrid_body self txt meta of
        Inr chunks \<Rightarrow> Inr chunks
      | Inl e \<Rightarrow> RecursiveChunkingStrategy_chunk_text (recursive_strategy self) txt meta)"

datatype chunking_strategy =
    RecursiveChunking RecursiveChunkingStrategy
  | SemanticChunking SemanticChunkingStrategy
  | ContextualChunking ContextualChunkingStrategy
  | HybridChunking HybridChunkingStrategy

fun chunk_text :: "chunking_strategy \<Rightarrow> string \<Rightarrow> metadata \<Rightarrow> error + chunk list" where
  "chunk_text (RecursiveChunking s) txt meta = RecursiveChunkingStrategy_chunk_text s txt meta"
| "chunk_text (SemanticChunking s) txt meta = SemanticChunkingStrategy_chunk_text s txt meta"
| "chunk_text (ContextualChunking s) txt meta = ContextualChunkingStrategy_chunk_text s txt meta"
| "chunk_text (HybridChunking s) txt meta = HybridChunkingStrategy_chunk_text s txt meta"

text \<open>
  The factory. The constructors build their library objects from the settings; the library
  hands them over as \<open>libraries\<close>. The dictionary lookup \<open>strategies[strategy_type]\<close> raises
  \<open>KeyError\<close> on a missing key.
\<close>

record libraries =
  RecursiveCharacterTextSplitter :: splitter
  SemanticChunker :: splitter

definition new_RecursiveChunkingStrategy :: "libraries \<Rightarrow> RecursiveChunkingStrategy" where
  "new_RecursiveChunkingStrategy libs = \<lparr>text_splitter = RecursiveCharacterTextSplitter libs\<rparr>"

definition new_SemanticChunkingStrategy :: "libraries \<Rightarrow> SemanticChunkingStrategy" where
  "new_SemanticChunkingStrategy libs = \<lparr>semantic_chunker = SemanticChunker libs\<rparr>"


definition new_HybridChunkingStrategy :: "libraries \<Rightarrow> HybridChunkingStrategy" where
  "new_HybridChunkingStrategy libs =
     \<lparr>recursive_strategy = new_RecursiveChunkingStrategy libs,
      semantic_strategy = new_SemanticChunkingStrategy libs\<rparr>"



section \<open>Retrieval strategies (services/retrieval\_service.py)\<close>

text \<open>
  The vector store interface of core/interfaces.py, as the record of its methods. A method
  either returns or raises; scores are exact rationals.
\<close>

record vector_store =
  add_documents :: "chunk list \<Rightarrow> error + unit"
  similarity_search :: "string \<Rightarrow> nat \<Rightarrow> error + doc list"
  delete_collection :: "error + unit"

definition BasicRetrieverStrategy_retrieve :: "string \<Rightarrow> vector_store \<Rightarrow> doc list" where
  "BasicRetrieverStrategy_retrieve query vs =
     (case similarity_search vs query 5 of
        Inr results \<Rightarrow> results
      | Inl e \<Rightarrow> [])"

text \<open>
  \<open>a / b\<close> on two lengths raises on a zero divisor.
\<close>

definition truediv :: "nat \<Rightarrow> nat \<Rightarrow> error + rat" where
  "truediv a b = (if b = 0 then Inl ZeroDivisionError else Inr (of_nat a / of_nat b))"

text \<open>
  Sorting with a key and \<open>reverse=True\<close>: the keys are computed first, left to right, and
  the first one that raises ends the sort; the sort is stable, and with \<open>reverse=True\<close> equal
  keys keep their original order.
\<close>

definition sort_reverse :: "('a \<Rightarrow> error + rat) \<Rightarrow> 'a list \<Rightarrow> error + 'a list" where
  "sort_reverse key xs =
     (case find (\<lambda>x. isl (key x)) xs of
        Some x \<Rightarrow> Inl (projl (key x))
      | None \<Rightarrow> Inr (rev (sort_key (\<lambda>x. projr (key x)) (rev xs))))"

record HybridRetrieverStrategy =
  similarity_weight :: rat
  keyword_weight :: rat

definition new_HybridRetrieverStrategy :: HybridRetrieverStrategy where
  "new_HybridRetrieverStrategy = \<lparr>similarity_weight = 7 / 10, keyword_weight = 3 / 10\<rparr>"

definition hybrid_score_doc :: "HybridRetrieverStrategy \<Rightarrow> string set \<Rightarrow> doc \<Rightarrow> doc" where
  "hybrid_score_doc self query_terms d =
     (let content_terms = set (str_split (str_lower (content d)));
          keyword_overlap = card (query_terms \<inter> content_terms);
          sim = (case similarity_score d of Some s \<Rightarrow> s | None \<Rightarrow> 0);
          keyword_score = (if query_terms \<noteq> {}
                           then of_nat keyword_overlap / of_nat (card query_terms) else 0);
          h = similarity_weight self * sim + keyword_weight self * keyword_score
      in d\<lparr>hybrid_score := Some h\<rparr>)"

definition getitem_hybrid_score :: "doc \<Rightarrow> error + rat" where
  "getitem_hybrid_score d =
     (case hybrid_score d of None \<Rightarrow> Inl (KeyError ''hybrid_score'') | Some h \<Rightarrow> Inr h)"

definition hybrid_retrieve_body ::
  "HybridRetrieverStrategy \<Rightarrow> string \<Rightarrow> vector_store \<Rightarrow> error + doc list" where
  "hybrid_retrieve_body self query vs =
     (case similarity_search vs query 8 of
        Inl e \<Rightarrow> Inl e
      | Inr similarity_results \<Rightarrow>
          (let query_terms = set (str_split (str_lower query));
               keyword_results = map (hybrid_score_doc self query_terms) similarity_results
           in case sort_reverse getitem_hybrid_score keyword_results of
                Inl e \<Rightarrow> Inl e
              | Inr sorted_results \<Rightarrow> Inr (take 5 sorted_results)))"

definition HybridRetrieverStrategy_retrieve ::
  "HybridRetrieverStrategy \<Rightarrow> string \<Rightarrow> vector_store \<Rightarrow> doc list" where
  "HybridRetrieverStrategy_retrieve self query vs =
     (case hybrid_retrieve_body self query vs of
        Inr results \<Rightarrow> results
      | Inl e \<Rightarrow> BasicRetrieverStrategy_retrieve query vs)"

definition expand_query :: "string \<Rightarrow> string list" where
  "expand_query query =
     (let base_query = query;
          expanded = [base_query];
          expanded = (if \<not> endswith query ''?'' then expanded @ [query @ ''?''] else expanded);
          expanded = (if \<not> list_ex (startswith (str_lower query))
                               [''what'', ''how'', ''why'', ''when'', ''where'']
                      then expanded @ [''what is '' @ query] else expanded)
      in expanded)"

text \<open>
  \<open>hash\<close> is the language's string hash, a parameter \<open>h\<close> of the model. The loop keeps the
  set of hashes seen so far and the snippets kept so far.
\<close>

fun deduplicate_loop :: "(string \<Rightarrow> int) \<Rightarrow> int set \<Rightarrow> doc list \<Rightarrow> doc list" where
  "deduplicate_loop h seen_content [] = []"
| "deduplicate_loop h seen_content (r # rs) =
     (let content_hash = h (take 100 (content r))
      in if content_hash \<notin> seen_content
         then r # deduplicate_loop h (insert content_hash seen_content) rs
         else deduplicate_loop h seen_content rs)"

definition deduplicate_results :: "(string \<Rightarrow> int) \<Rightarrow> doc list \<Rightarrow> doc list" where
  "deduplicate_results h results = deduplicate_loop h {} results"

fun rank_loop :: "string set \<Rightarrow> doc list \<Rightarrow> error + doc list" where
  "rank_loop query_terms [] = Inr []"
| "rank_loop query_terms (r # rs) =
     (let content_terms = set (str_split (str_lower (content r)))
      in case truediv (card (query_terms \<inter> content_terms)) (card query_terms) of
           Inl e \<Rightarrow> Inl e
         | Inr relevance \<Rightarrow>
             (case rank_loop query_terms rs of
                Inl e \<Rightarrow> Inl e
              | Inr rs' \<Rightarrow> Inr (r\<lparr>relevance_score := Some relevance\<rparr> # rs')))"

definition get_relevance_score :: "doc \<Rightarrow> error + rat" where
  "get_relevance_score d = Inr (case relevance_score d of Some s \<Rightarrow> s | None \<Rightarrow> 0)"

definition rank_results :: "doc list \<Rightarrow> string \<Rightarrow> error + doc list" where
  "rank_results results original_query =
     (let query_terms = set (str_split (str_lower original_query))
      in case rank_loop query_terms results of
           Inl e \<Rightarrow> Inl e
         | Inr scored \<Rightarrow> sort_reverse get_relevance_score scored)"

fun search_all :: "vector_store \<Rightarrow> string list \<Rightarrow> error + doc list" where
  "search_all vs [] = Inr []"
| "search_all vs (expanded_query # qs) =
     (case similarity_search vs expanded_query 3 of
        Inl e \<Rightarrow> Inl e
      | Inr results \<Rightarrow>
          (case search_all vs qs of
             Inl e \<Rightarrow> Inl e
           | Inr rest \<Rightarrow> Inr (results @ rest)))"

definition contextual_retrieve_body ::
  "(string \<Rightarrow> int) \<Rightarrow> string \<Rightarrow> vector_store \<Rightarrow> error + doc list" where
  "contextual_retrieve_body h query vs =
     (let expanded_queries = expand_query query
      in case search_all vs expanded_queries of
           Inl e \<Rightarrow> Inl e
         | Inr all_results \<Rightarrow>
             (let unique_results = deduplicate_results h all_results
              in case rank_results unique_results query of
                   Inl e \<Rightarrow> Inl e
                 | Inr ranked_results \<Rightarrow> Inr (take 5 ranked_results)))"

definition ContextualRetrieverStrategy_retrieve ::
  "(string \<Rightarrow> int) \<Rightarrow> string \<Rightarrow> vector_store \<Rightarrow> doc list" where
  "ContextualRetrieverStrategy_retrieve h query vs =
     (case contextual_retrieve_body h query vs of
        Inr results \<Rightarrow> results
      | Inl e \<Rightarrow> BasicRetrieverStrategy_retrieve query vs)"

datatype retriever_strategy =
    BasicRetriever
  | HybridRetriever HybridRetrieverStrategy
  | ContextualRetriever

fun retrieve :: "(string \<Rightarrow> int) \<Rightarrow> retriever_strategy \<Rightarrow> string \<Rightarrow> vector_store \<Rightarrow> doc list" where
  "retrieve h BasicRetriever query vs = BasicRetrieverStrategy_retrieve query vs"
| "retrieve h (HybridRetriever s) query vs = HybridRetrieverStrategy_retrieve s query vs"
| "retrieve h ContextualRetriever query vs = ContextualRetrieverStrategy_retrieve h query vs"



section \<open>Document processing (services/document\_processor.py)\<close>

text \<open>
  What the file system and the PDF reader give for one path: its name, its printed form, the
  result of \<open>stat()\<close>, and the text of each page, or the exception raised on the way.
\<close>

record pdf_file =
  path_name :: string
  path_str :: string
  st_size :: "error + nat"
  pages :: "error + string list"

record PDFProcessor =
  chunking_strategy :: chunking_strategy

definition PDFProcessor_extract_text :: "pdf_file \<Rightarrow> error + string" where
  "PDFProcessor_extract_text file_path =
     (case pages file_path of
        Inl e \<Rightarrow> Inl e
      | Inr page_texts \<Rightarrow>
          (let text_content =
                 map (\<lambda>(page_num, page_text).
                        NL @ ''--- Page '' @ str_nat (page_num + 1) @ '' ---'' @ NL @ page_text)
                     (filter (\<lambda>(page_num, page_text). str_strip page_text \<noteq> [])
                             (enumerate 0 page_texts))
           in Inr (str_join NL text_content)))"

definition PDFProcessor_chunk_document ::
  "PDFProcessor \<Rightarrow> string \<Rightarrow> metadata \<Rightarrow> error + chunk list" where
  "PDFProcessor_chunk_document self txt meta =
     (case chunk_text (chunking_strategy self) txt meta of
        Inl e \<Rightarrow> Inl e
      | Inr chunks \<Rightarrow> Inr chunks)"

definition PDFProcessor_process_pdf :: "PDFProcessor \<Rightarrow> pdf_file \<Rightarrow> error + chunk list" where
  "PDFProcessor_process_pdf self file_path =
     (case PDFProcessor_extract_text file_path of
        Inl e \<Rightarrow> Inl e
      | Inr txt \<Rightarrow>
          (case st_size file_path of
             Inl e \<Rightarrow> Inl e
           | Inr size_in_bytes \<Rightarrow>
               (let meta = [(''filename'', VStr (path_name file_path)),
                            (''file_path'', VStr (path_str file_path)),
                            (''file_size'', VInt (int size_in_bytes)),
                            (''source_type'', VStr ''pdf'')]
                in PDFProcessor_chunk_document self txt meta)))"

section \<open>The vector store's deletion (services/vector\_store.py)\<close>

text \<open>
  \<open>ChromaVectorStore.delete_collection\<close> asks the database client to delete the configured
  collection; it logs an exception of the client and raises it again.
\<close>

definition ChromaVectorStore_delete_collection ::
  "(string \<Rightarrow> error + unit) \<Rightarrow> string \<Rightarrow> error + unit" where
  "ChromaVectorStore_delete_collection client_delete_collection collection_name =
     (case client_delete_collection collection_name of
        Inr u \<Rightarrow> Inr ()
      | Inl e \<Rightarrow> Inl e)"

section \<open>The agent (main.py)\<close>

text \<open>
  The language model adapter streams fragments and may raise after some of them: the result
  of \<open>generate_response\<close> is the fragments yielded and the exception that ended the stream,
  if any. The retriever is the interface of core/interfaces.py.
\<close>

type_synonym llm_provider = "string \<Rightarrow> string \<Rightarrow> string list \<times> error option"

type_synonym retriever = "string \<Rightarrow> vector_store \<Rightarrow> error + doc list"

record agent =
  pdf_processor :: PDFProcessor
  vector_store :: vector_store
  llm_service :: llm_provider
  retriever :: retriever

text \<open>
  The calls an operation of the agent makes on its collaborators, in order.
\<close>

datatype call =
    Call_process_pdf string
  | Call_add_documents "chunk list"
  | Call_retrieve string
  | Call_generate_response string string
  | Call_delete_collection
  | Call_ChromaVectorStore

definition PDFQAAgent_process_pdf :: "agent \<Rightarrow> pdf_file \<Rightarrow> bool \<times> call list" where
  "PDFQAAgent_process_pdf self file_path =
     (case PDFProcessor_process_pdf (pdf_processor self) file_path of
        Inl e \<Rightarrow> (False, [Call_process_pdf (path_str file_path)])
      | Inr chunks \<Rightarrow>
          if chunks = [] then (False, [Call_process_pdf (path_str file_path)])
          else (case add_documents (vector_store self) chunks of
                  Inl e \<Rightarrow>
                    (False, [Call_process_pdf (path_str file_path), Call_add_documents chunks])
                | Inr u \<Rightarrow>
                    (True, [Call_process_pdf (path_str file_path), Call_add_documents chunks])))"

definition no_information_message :: string where
  "no_information_message =
     ''I couldn'' @ [CHR 0x27] @
     ''t find any relevant information in the knowledge base to answer your question.''"

definition error_message :: "error \<Rightarrow> string" where
  "error_message e = ''An error occurred while processing your question: '' @ str_error e"

text \<open>
  \<open>format_3f\<close> is the language's \<open>:.3f\<close> formatting of a score, a parameter of the model.
\<close>

definition prepare_context :: "(rat \<Rightarrow> string) \<Rightarrow> doc list \<Rightarrow> string" where
  "prepare_context format_3f relevant_docs =
     str_join NL
       (map (\<lambda>(i, d).
               NL @ ''Document '' @ str_nat i @ '':'' @ NL
               @ ''Source: '' @ (case map_of (metadata d) ''filename'' of
                                   Some v \<Rightarrow> str_mval v | None \<Rightarrow> ''Unknown'') @ NL
               @ ''Relevance Score: ''
               @ format_3f (case similarity_score d of Some s \<Rightarrow> s | None \<Rightarrow> 0) @ NL
               @ ''Content: '' @ content d @ NL
               @ ''---'' @ NL)
            (enumerate 1 relevant_docs))"

definition PDFQAAgent_ask_question ::
  "(rat \<Rightarrow> string) \<Rightarrow> agent \<Rightarrow> string \<Rightarrow> string \<times> call list" where
  "PDFQAAgent_ask_question format_3f self question =
     (case retriever self question (vector_store self) of
        Inl e \<Rightarrow> (error_message e, [Call_retrieve question])
      | Inr relevant_docs \<Rightarrow>
          if relevant_docs = [] then (no_information_message, [Call_retrieve question])
          else (let context = prepare_context format_3f relevant_docs
                in case llm_service self question context of
                     (response_parts, None) \<Rightarrow>
                       (concat response_parts,
                        [Call_retrieve question, Call_generate_response question context])
                   | (response_parts, Some e) \<Rightarrow>
                       (error_message e,
                        [Call_retrieve question, Call_generate_response question context])))"

text \<open>The streaming variant: the fragments it yields, in order.\<close>

definition PDFQAAgent_ask_question_stream ::
  "(rat \<Rightarrow> string) \<Rightarrow> agent \<Rightarrow> string \<Rightarrow> string list \<times> call list" where
  "PDFQAAgent_ask_question_stream format_3f self question =
     (case retriever self question (vector_store self) of
        Inl e \<Rightarrow> ([error_message e], [Call_retrieve question])
      | Inr relevant_docs \<Rightarrow>
          if relevant_docs = [] then ([no_information_message], [Call_retrieve question])
          else (let context = prepare_context format_3f relevant_docs
                in case llm_service self question context of
                     (fragments, None) \<Rightarrow>
                       (fragments,
                        [Call_retrieve question, Call_generate_response question context])
                   | (fragments, Some e) \<Rightarrow>
                       (fragments @ [error_message e],
                        [Call_retrieve question, Call_generate_response question context])))"

text \<open>
  \<open>new_store\<close> is what constructing a \<open>ChromaVectorStore\<close> gives once the collection has been
  deleted: a fresh handle, or the exception of the constructor.
\<close>

definition PDFQAAgent_clear_knowledge_base ::
  "(error + vector_store) \<Rightarrow> agent \<Rightarrow> bool \<times> agent \<times> call list" where
  "PDFQAAgent_clear_knowledge_base new_store self =
     (case delete_collection (vector_store self) of
        Inl e \<Rightarrow> (False, self, [Call_delete_collection])
      | Inr u \<Rightarrow>
          (case new_store of
             Inl e \<Rightarrow> (False, self, [Call_delete_collection, Call_ChromaVectorStore])
           | Inr fresh \<Rightarrow>
               (True, self\<lparr>vector_store := fresh\<rparr>,
                [Call_delete_collection, Call_ChromaVectorStore])))"

section \<open>Concrete inputs\<close>

definition example_hash :: "string \<Rightarrow> int" where
  "example_hash s = int (length s)"

definition doc_alpha :: doc where
  "doc_alpha = \<lparr>content = ''alpha gamma'',
                 metadata = [(''filename'', VStr ''a.pdf''), (''chunk_id'', VInt 0)],
                 similarity_score = Some (4 / 5), hybrid_score = None, relevance_score = None\<rparr>"

definition doc_beta :: doc where
  "doc_beta = \<lparr>content = ''Alpha BETA delta'',
                metadata = [(''filename'', VStr ''a.pdf''), (''chunk_id'', VInt 1)],
                similarity_score = Some (3 / 5), hybrid_score = None, relevance_score = None\<rparr>"

definition doc_header0 :: doc where
  "doc_header0 = \<lparr>content = ''shared header'',
                   metadata = [(''filename'', VStr ''b.pdf''), (''chunk_id'', VInt 0)],
                   similarity_score = Some (1 / 2), hybrid_score = None, relevance_score = None\<rparr>"

definition doc_header1 :: doc where
  "doc_header1 = \<lparr>content = ''shared header'',
                   metadata = [(''filename'', VStr ''b.pdf''), (''chunk_id'', VInt 1)],
                   similarity_score = Some (2 / 5), hybrid_score = None, relevance_score = None\<rparr>"

definition store_of :: "doc list \<Rightarrow> vector_store" where
  "store_of docs = \<lparr>add_documents = (\<lambda>chunks. Inr ()),
                     similarity_search = (\<lambda>query k. Inr (take k docs)),
                     delete_collection = Inr ()\<rparr>"

definition broken_store :: vector_store where
  "broken_store = \<lparr>add_documents = (\<lambda>chunks. Inl (LibraryError ''database is locked'')),
                    similarity_search = (\<lambda>query k. Inl (LibraryError ''database is locked'')),
                    delete_collection = Inl (LibraryError ''database is locked'')\<rparr>"

definition whole_text_splitter :: splitter where
  "whole_text_splitter t = (if t = [] then Inr [] else Inr [t])"

definition halving_splitter :: splitter where
  "halving_splitter t = Inr [take (length t div 2) t, drop (length t div 2) t]"

definition failing_splitter :: splitter where
  "failing_splitter t = Inl (LibraryError ''embedding model unavailable'')"

definition example_libraries :: libraries where
  "example_libraries = \<lparr>RecursiveCharacterTextSplitter = whole_text_splitter,
                         SemanticChunker = halving_splitter\<rparr>"

definition failing_libraries :: libraries where
  "failing_libraries = \<lparr>RecursiveCharacterTextSplitter = whole_text_splitter,
                         SemanticChunker = failing_splitter\<rparr>"

definition long_text :: string where
  "long_text = replicate 10001 (CHR ''a'')"

definition example_file :: pdf_file where
  "example_file = \<lparr>path_name = ''a.pdf'', path_str = ''docs/a.pdf'',
                    st_size = Inr 11, pages = Inr [''Hello world'']\<rparr>"

definition blank_file :: pdf_file where
  "blank_file = \<lparr>path_name = ''blank.pdf'', path_str = ''docs/blank.pdf'',
                  st_size = Inr 2, pages = Inr [''  '']\<rparr>"

definition unreadable_file :: pdf_file where
  "unreadable_file = \<lparr>path_name = ''bad.pdf'', path_str = ''docs/bad.pdf'',
                       st_size = Inr 4, pages = Inl (LibraryError ''not a PDF file'')\<rparr>"

definition agent_with :: "libraries \<Rightarrow> vector_store \<Rightarrow> agent" where
  "agent_with libs vs =
     \<lparr>pdf_processor = \<lparr>chunking_strategy = HybridChunking (new_HybridChunkingStrategy libs)\<rparr>,
      vector_store = vs,
      llm_service = (\<lambda>question context. ([''It is '', ''alpha.''], None)),
      retriever = (\<lambda>query store.
         Inr (retrieve example_hash (HybridRetriever new_HybridRetrieverStrategy) query store))\<rparr>"

definition semantic_agent :: agent where
  "semantic_agent =
     (agent_with failing_libraries (store_of []))
       \<lparr>pdf_processor :=
          \<lparr>chunking_strategy = SemanticChunking (new_SemanticChunkingStrategy failing_libraries)\<rparr>\<rparr>"

text \<open>A stand-in for the formatter of scores: three decimals, truncated.\<close>

definition format_3f_example :: "rat \<Rightarrow> string" where
  "format_3f_example r = str_int \<lfloor>r\<rfloor> @ ''.'' @
     (let m = nat (\<lfloor>\<bar>r\<bar> * 1000\<rfloor> mod 1000)
      in str_nat (m div 100) @ str_nat (m div 10 mod 10) @ str_nat (m mod 10))"

section \<open>Auxiliary facts\<close>

subsection \<open>String tests and sorting\<close>



lemma insort_key_cong_set:
  "f a = g a \<Longrightarrow> (\<And>x. x \<in> set xs \<Longrightarrow> f x = g x) \<Longrightarrow> insort_key f a xs = insort_key g a xs"
  by (induction xs) auto

lemma sort_key_cong_set:
  "(\<And>x. x \<in> set xs \<Longrightarrow> f x = g x) \<Longrightarrow> sort_key f xs = sort_key g xs"
proof (induction xs)
  case Nil
  then show ?case by simp
next
  case (Cons a xs)
  then have "sort_key f xs = sort_key g xs" by simp
  moreover have "insort_key f a (sort_key g xs) = insort_key g a (sort_key g xs)"
    using Cons.prems by (intro insort_key_cong_set) auto
  ultimately show ?case by simp
qed

text \<open>When no key raises, the sort returns, and its result is the stable descending order.\<close>

lemma sort_reverse_total:
  assumes "\<And>x. x \<in> set xs \<Longrightarrow> key x = Inr (f x)"
  shows "sort_reverse key xs = Inr (rev (sort_key f (rev xs)))"
proof -
  have "find (\<lambda>x. isl (key x)) xs = None"
    using assms by (auto simp: find_None_iff)
  moreover have "sort_key (\<lambda>x. projr (key x)) (rev xs) = sort_key f (rev xs)"
    using assms by (intro sort_key_cong_set) auto
  ultimately show ?thesis by (simp add: sort_reverse_def)
qed


subsection \<open>Hybrid retrieval\<close>



lemma hybrid_retrieve_search_fails:
  assumes "similarity_search vs query 8 = Inl e"
  shows "HybridRetrieverStrategy_retrieve self query vs = BasicRetrieverStrategy_retrieve query vs"
  using assms by (simp add: HybridRetrieverStrategy_retrieve_def hybrid_retrieve_body_def)

subsection \<open>Contextual retrieval\<close>

lemma deduplicate_loop_fresh:
  "r \<in> set (deduplicate_loop h seen rs) \<Longrightarrow> h (take 100 (content r)) \<notin> seen"
  by (induction rs arbitrary: seen) (auto simp: Let_def split: if_splits)

lemma deduplicate_loop_distinct:
  "distinct (map (\<lambda>r. h (take 100 (content r))) (deduplicate_loop h seen rs))"
proof (induction rs arbitrary: seen)
  case Nil
  then show ?case by simp
next
  case (Cons r rs)
  show ?case
  proof (cases "h (take 100 (content r)) \<in> seen")
    case True
    then show ?thesis using Cons.IH by (simp add: Let_def)
  next
    case False
    have "h (take 100 (content r)) \<noteq> h (take 100 (content r'))"
      if "r' \<in> set (deduplicate_loop h (insert (h (take 100 (content r))) seen) rs)" for r'
      using deduplicate_loop_fresh[OF that] by auto
    then show ?thesis using False Cons.IH by (auto simp: Let_def)
  qed
qed

lemma deduplicate_loop_keys:
  "(\<lambda>r. h (take 100 (content r))) ` set (deduplicate_loop h seen rs)
     = (\<lambda>r. h (take 100 (content r))) ` set rs - seen"
  by (induction rs arbitrary: seen) (auto simp: Let_def)

lemma deduplicate_loop_subseq: "subseq (deduplicate_loop h seen rs) rs"
  by (induction rs arbitrary: seen) (auto simp: Let_def)

lemma distinct_map_comp:
  assumes "distinct (map (\<lambda>x. g (f x)) xs)"
  shows "distinct (map f xs)"
proof -
  from assms have d: "distinct xs" and i: "inj_on (\<lambda>x. g (f x)) (set xs)"
    by (simp_all add: distinct_map)
  from i have "inj_on f (set xs)"
    by (auto simp: inj_on_def)
  with d show ?thesis by (simp add: distinct_map)
qed

text \<open>
  After deduplication no two snippets agree on the first 100 characters of their content,
  the snippets kept are a subsequence of the merged results, and every hash of the merged
  results is still represented.
\<close>

lemma deduplicate_results_prefixes:
  "distinct (map (\<lambda>r. take 100 (content r)) (deduplicate_results h results))"
  unfolding deduplicate_results_def
  using deduplicate_loop_distinct[of h "{}" results] by (rule distinct_map_comp)

lemma deduplicate_results_subseq: "subseq (deduplicate_results h results) results"
  by (simp add: deduplicate_results_def deduplicate_loop_subseq)

lemma deduplicate_results_keys:
  "(\<lambda>r. h (take 100 (content r))) ` set (deduplicate_results h results)
     = (\<lambda>r. h (take 100 (content r))) ` set results"
  by (simp add: deduplicate_results_def deduplicate_loop_keys)

lemma deduplicate_results_nonempty:
  "results \<noteq> [] \<Longrightarrow> deduplicate_results h results \<noteq> []"
  by (cases results) (simp_all add: deduplicate_results_def Let_def)

lemma deduplicate_results_empty: "deduplicate_results h [] = []"
  by (simp add: deduplicate_results_def)

lemma rank_loop_scored:
  "card Q \<noteq> 0 \<Longrightarrow>
   rank_loop Q rs =
     Inr (map (\<lambda>r. r\<lparr>relevance_score :=
              Some (of_nat (card (Q \<inter> set (str_split (str_lower (content r))))) / of_nat (card Q))\<rparr>) rs)"
  by (induction rs) (simp_all add: truediv_def Let_def)

lemma rank_loop_zero:
  "card Q = 0 \<Longrightarrow> rs \<noteq> [] \<Longrightarrow> rank_loop Q rs = Inl ZeroDivisionError"
  by (cases rs) (simp_all add: truediv_def Let_def)

lemma rank_results_ranked:
  assumes "set (str_split (str_lower query)) \<noteq> {}"
  shows "rank_results results query =
     Inr (rev (sort_key (\<lambda>d. case relevance_score d of Some s \<Rightarrow> s | None \<Rightarrow> 0)
       (rev (map (\<lambda>r. r\<lparr>relevance_score :=
              Some (of_nat (card (set (str_split (str_lower query))
                               \<inter> set (str_split (str_lower (content r)))))
                    / of_nat (card (set (str_split (str_lower query)))))\<rparr>) results))))"
proof -
  let ?Q = "set (str_split (str_lower query))"
  have c: "card ?Q \<noteq> 0" using assms by simp
  show ?thesis
    unfolding rank_results_def Let_def rank_loop_scored[OF c]
    by (simp add: sort_reverse_total[where f = "\<lambda>d. case relevance_score d of Some s \<Rightarrow> s | None \<Rightarrow> 0"]
        get_relevance_score_def)
qed

lemma rank_results_raises:
  assumes "set (str_split (str_lower query)) = {}" "results \<noteq> []"
  shows "rank_results results query = Inl ZeroDivisionError"
  using assms by (simp add: rank_results_def rank_loop_zero)

lemma rank_results_nothing: "rank_results [] query = Inr []"
  by (simp add: rank_results_def sort_reverse_def)

text \<open>
  With at least one query term and all similarity searches returning, the contextual
  strategy returns the first five of the deduplicated results in descending order of their
  keyword overlap with the original query.
\<close>

lemma contextual_retrieve_ranked:
  assumes "search_all vs (expand_query query) = Inr all_results"
    and "set (str_split (str_lower query)) \<noteq> {}"
  shows "ContextualRetrieverStrategy_retrieve h query vs =
     take 5 (rev (sort_key (\<lambda>d. case relevance_score d of Some s \<Rightarrow> s | None \<Rightarrow> 0)
       (rev (map (\<lambda>r. r\<lparr>relevance_score :=
              Some (of_nat (card (set (str_split (str_lower query))
                               \<inter> set (str_split (str_lower (content r)))))
                    / of_nat (card (set (str_split (str_lower query)))))\<rparr>)
            (deduplicate_results h all_results)))))"
  using assms
  by (simp add: ContextualRetrieverStrategy_retrieve_def contextual_retrieve_body_def
      rank_results_ranked)

subsection \<open>Hybrid chunking\<close>

text \<open>
  Whenever the body of the hybrid strategy returns, every chunk carries the tag \<open>hybrid\<close>.
\<close>

lemma hybrid_retag_tag:
  "map_of (metadata (hybrid_retag c)) ''chunking_strategy'' = Some (VStr ''hybrid'')"
  by (simp add: hybrid_retag_def update_conv')

lemma hybrid_body_tags:
  assumes "hybrid_body self txt meta = Inr chunks" and "c \<in> set chunks"
  shows "map_of (metadata c) ''chunking_strategy'' = Some (VStr ''hybrid'')"
  using assms
  by (auto simp: hybrid_body_def Let_def hybrid_retag_tag split: sum.splits if_splits)

subsection \<open>Document processing\<close>

lemma process_pdf_pipeline_raises:
  "(\<forall>e. pages file_path = Inl e \<longrightarrow> PDFProcessor_process_pdf p file_path = Inl e)
 \<and> (\<forall>txt n e. PDFProcessor_extract_text file_path = Inr txt \<and> st_size file_path = Inr n
      \<and> chunk_text (chunking_strategy p) txt
           [(''filename'', VStr (path_name file_path)), (''file_path'', VStr (path_str file_path)),
            (''file_size'', VInt (int n)), (''source_type'', VStr ''pdf'')] = Inl e
      \<longrightarrow> PDFProcessor_process_pdf p file_path = Inl e)"
  by (auto simp: PDFProcessor_process_pdf_def PDFProcessor_extract_text_def
      PDFProcessor_chunk_document_def split: sum.splits)

lemma ChromaVectorStore_delete_collection_raises:
  "client_delete_collection collection_name = Inl e \<Longrightarrow>
   ChromaVectorStore_delete_collection client_delete_collection collection_name = Inl e"
  by (simp add: ChromaVectorStore_delete_collection_def)

section \<open>The claims\<close>

subsection \<open>Hybrid chunking\<close>

text \<open>
  Claim C1: every chunk record returned by the hybrid chunking strategy has the metadata field
  \<open>chunking_strategy\<close> equal to \<open>hybrid\<close>, also on the fallback path taken after an internal
  failure. The body of the strategy retags its chunks (\<open>hybrid_body_tags\<close>); the handler of
  its exception returns the recursive strategy's chunks as they are. Here the semantic
  chunker raises on a text of 10001 characters, and the chunk returned is tagged
  \<open>recursive\<close>.
\<close>

theorem hybrid_fallback_keeps_recursive_tag:
  "HybridChunkingStrategy_chunk_text (new_HybridChunkingStrategy failing_libraries) long_text
     [(''filename'', VStr ''a.pdf'')] =
   Inr [\<lparr>content = long_text,
         metadata = [(''filename'', VStr ''a.pdf''), (''chunk_id'', VInt 0),
                     (''chunk_size'', VInt 10001), (''chunking_strategy'', VStr ''recursive'')]\<rparr>]"
  by (simp add: HybridChunkingStrategy_chunk_text_def hybrid_body_def
      SemanticChunkingStrategy_chunk_text_def RecursiveChunkingStrategy_chunk_text_def
      new_HybridChunkingStrategy_def new_RecursiveChunkingStrategy_def
      new_SemanticChunkingStrategy_def failing_libraries_def failing_splitter_def
      whole_text_splitter_def long_text_def enumerate_eq_zip)

text \<open>
  Claim C4: the hybrid strategy delegates to the semantic strategy exactly when the text has
  more than 10000 characters and to the recursive strategy otherwise; when the chosen
  delegate returns, the result is its chunks, retagged; when it raises, the result is the
  result of the recursive strategy.
\<close>

theorem hybrid_chunk_text_routing:
  "(length txt > 10000 \<longrightarrow>
      (\<forall>chunks. SemanticChunkingStrategy_chunk_text (semantic_strategy self) txt meta = Inr chunks
         \<longrightarrow> HybridChunkingStrategy_chunk_text self txt meta = Inr (map hybrid_retag chunks))
    \<and> (\<forall>e. SemanticChunkingStrategy_chunk_text (semantic_strategy self) txt meta = Inl e
         \<longrightarrow> HybridChunkingStrategy_chunk_text self txt meta
             = RecursiveChunkingStrategy_chunk_text (recursive_strategy self) txt meta))
 \<and> (length txt \<le> 10000 \<longrightarrow>
      (\<forall>chunks. RecursiveChunkingStrategy_chunk_text (recursive_strategy self) txt meta = Inr chunks
         \<longrightarrow> HybridChunkingStrategy_chunk_text self txt meta = Inr (map hybrid_retag chunks))
    \<and> (\<forall>e. RecursiveChunkingStrategy_chunk_text (recursive_strategy self) txt meta = Inl e
         \<longrightarrow> HybridChunkingStrategy_chunk_text self txt meta
             = RecursiveChunkingStrategy_chunk_text (recursive_strategy self) txt meta))"
  by (simp add: HybridChunkingStrategy_chunk_text_def hybrid_body_def)

theorem hybrid_chunk_text_routing_witness:
  "length long_text > 10000
 \<and> SemanticChunkingStrategy_chunk_text
      (semantic_strategy (new_HybridChunkingStrategy example_libraries)) long_text []
     = Inr [\<lparr>content = replicate 5000 (CHR ''a''),
             metadata = [(''chunk_id'', VInt 0), (''chunk_size'', VInt 5000),
                         (''chunking_strategy'', VStr ''semantic'')]\<rparr>,
            \<lparr>content = replicate 5001 (CHR ''a''),
             metadata = [(''chunk_id'', VInt 1), (''chunk_size'', VInt 5001),
                         (''chunking_strategy'', VStr ''semantic'')]\<rparr>]
 \<and> HybridChunkingStrategy_chunk_text (new_HybridChunkingStrategy example_libraries) long_text []
     = Inr [\<lparr>content = replicate 5000 (CHR ''a''),
             metadata = [(''chunk_id'', VInt 0), (''chunk_size'', VInt 5000),
                         (''chunking_strategy'', VStr ''hybrid'')]\<rparr>,
            \<lparr>content = replicate 5001 (CHR ''a''),
             metadata = [(''chunk_id'', VInt 1), (''chunk_size'', VInt 5001),
                         (''chunking_strategy'', VStr ''hybrid'')]\<rparr>]
 \<and> SemanticChunkingStrategy_chunk_text
      (semantic_strategy (new_HybridChunkingStrategy failing_libraries)) long_text []
     = Inl (LibraryError ''embedding model unavailable'')
 \<and> HybridChunkingStrategy_chunk_text (new_HybridChunkingStrategy failing_libraries) long_text []
     = RecursiveChunkingStrategy_chunk_text
         (recursive_strategy (new_HybridChunkingStrategy failing_libraries)) long_text []
 \<and> length ''short text'' \<le> 10000
 \<and> HybridChunkingStrategy_chunk_text (new_HybridChunkingStrategy failing_libraries)
      ''short text'' []
     = Inr [\<lparr>content = ''short text'',
             metadata = [(''chunk_id'', VInt 0), (''chunk_size'', VInt 10),
                         (''chunking_strategy'', VStr ''hybrid'')]\<rparr>]"
proof -
  let ?ok = "new_HybridChunkingStrategy example_libraries"
  let ?bad = "new_HybridChunkingStrategy failing_libraries"
  have len: "length long_text > 10000" by (simp add: long_text_def)
  have sem: "SemanticChunkingStrategy_chunk_text (semantic_strategy ?ok) long_text []
     = Inr [\<lparr>content = replicate 5000 (CHR ''a''),
             metadata = [(''chunk_id'', VInt 0), (''chunk_size'', VInt 5000),
                         (''chunking_strategy'', VStr ''semantic'')]\<rparr>,
            \<lparr>content = replicate 5001 (CHR ''a''),
             metadata = [(''chunk_id'', VInt 1), (''chunk_size'', VInt 5001),
                         (''chunking_strategy'', VStr ''semantic'')]\<rparr>]"
    by (simp add: SemanticChunkingStrategy_chunk_text_def new_HybridChunkingStrategy_def
        new_SemanticChunkingStrategy_def example_libraries_def halving_splitter_def
        long_text_def enumerate_eq_zip upt_rec)
  have fail: "SemanticChunkingStrategy_chunk_text (semantic_strategy ?bad) long_text []
     = Inl (LibraryError ''embedding model unavailable'')"
    by (simp add: SemanticChunkingStrategy_chunk_text_def new_HybridChunkingStrategy_def
        new_SemanticChunkingStrategy_def failing_libraries_def failing_splitter_def)
  have short: "length ''short text'' \<le> 10000" by simp
  have rec: "RecursiveChunkingStrategy_chunk_text (recursive_strategy ?bad) ''short text'' []
     = Inr [\<lparr>content = ''short text'',
             metadata = [(''chunk_id'', VInt 0), (''chunk_size'', VInt 10),
                         (''chunking_strategy'', VStr ''recursive'')]\<rparr>]"
    by (simp add: RecursiveChunkingStrategy_chunk_text_def new_HybridChunkingStrategy_def
        new_RecursiveChunkingStrategy_def failing_libraries_def whole_text_splitter_def
        enumerate_eq_zip)
  from hybrid_chunk_text_routing[of long_text ?ok "[]"] len sem
  have a: "HybridChunkingStrategy_chunk_text ?ok long_text []
     = Inr [\<lparr>content = replicate 5000 (CHR ''a''),
             metadata = [(''chunk_id'', VInt 0), (''chunk_size'', VInt 5000),
                         (''chunking_strategy'', VStr ''hybrid'')]\<rparr>,
            \<lparr>content = replicate 5001 (CHR ''a''),
             metadata = [(''chunk_id'', VInt 1), (''chunk_size'', VInt 5001),
                         (''chunking_strategy'', VStr ''hybrid'')]\<rparr>]"
    by (simp add: hybrid_retag_def)
  from hybrid_chunk_text_routing[of long_text ?bad "[]"] len fail
  have b: "HybridChunkingStrategy_chunk_text ?bad long_text []
     = RecursiveChunkingStrategy_chunk_text (recursive_strategy ?bad) long_text []"
    by simp
  from hybrid_chunk_text_routing[of "''short text''" ?bad "[]"] short rec
  have c: "HybridChunkingStrategy_chunk_text ?bad ''short text'' []
     = Inr [\<lparr>content = ''short text'',
             metadata = [(''chunk_id'', VInt 0), (''chunk_size'', VInt 10),
                         (''chunking_strategy'', VStr ''hybrid'')]\<rparr>]"
    by (simp add: hybrid_retag_def)
  from len sem a fail b short c show ?thesis by (intro conjI)
qed

subsection \<open>Retrieval\<close>



text \<open>
  Claim C5: in the contextual strategy, snippets that agree on the first 100 characters of
  their content are collapsed to one entry, and the deduplicated results are ranked in
  descending order of their keyword overlap with the original query, at most five being
  returned. With at least one query term the code does so (\<open>contextual_retrieve_ranked\<close>,
  \<open>deduplicate_results_prefixes\<close>). For a query of whitespace only, the division by the
  number of query terms raises, and the strategy returns the plain similarity search
  instead: two snippets with the same content are both returned, unranked.
\<close>

theorem contextual_blank_query_not_deduplicated:
  "ContextualRetrieverStrategy_retrieve example_hash ''  '' (store_of [doc_header0, doc_header1])
     = [doc_header0, doc_header1]
 \<and> take 100 (content doc_header0) = take 100 (content doc_header1)
 \<and> ContextualRetrieverStrategy_retrieve example_hash ''header'' (store_of [doc_header0, doc_header1])
     = [doc_header0\<lparr>relevance_score := Some 1\<rparr>]"
  by code_simp



text \<open>
  Claim C10: the ranking of the contextual strategy divides by the number of distinct query
  terms with no guard. As amended: for a query with no term, when the merged similarity
  results are not empty the ranking raises a division by zero, which the strategy catches,
  and the result is that of the basic strategy; when the merged results are empty, no
  division takes place, nothing is raised, and the strategy returns the empty list.
\<close>

theorem contextual_empty_query_terms:
  assumes "set (str_split (str_lower query)) = {}"
    and "search_all vs (expand_query query) = Inr all_results"
  shows "(all_results \<noteq> [] \<longrightarrow>
            rank_results (deduplicate_results h all_results) query = Inl ZeroDivisionError
          \<and> ContextualRetrieverStrategy_retrieve h query vs
              = BasicRetrieverStrategy_retrieve query vs)
       \<and> (all_results = [] \<longrightarrow>
            rank_results (deduplicate_results h all_results) query = Inr []
          \<and> contextual_retrieve_body h query vs = Inr []
          \<and> ContextualRetrieverStrategy_retrieve h query vs = [])"
proof (intro conjI impI)
  assume ne: "all_results \<noteq> []"
  then have "deduplicate_results h all_results \<noteq> []"
    by (rule deduplicate_results_nonempty)
  with assms(1) show r: "rank_results (deduplicate_results h all_results) query = Inl ZeroDivisionError"
    by (rule rank_results_raises)
  show "ContextualRetrieverStrategy_retrieve h query vs = BasicRetrieverStrategy_retrieve query vs"
    using assms(2) r
    by (simp add: ContextualRetrieverStrategy_retrieve_def contextual_retrieve_body_def)
next
  assume e: "all_results = []"
  show r: "rank_results (deduplicate_results h all_results) query = Inr []"
    using e by (simp add: deduplicate_results_empty rank_results_nothing)
  show b: "contextual_retrieve_body h query vs = Inr []"
    using assms(2) r by (simp add: contextual_retrieve_body_def)
  show "ContextualRetrieverStrategy_retrieve h query vs = []"
    using b by (simp add: ContextualRetrieverStrategy_retrieve_def)
qed

theorem contextual_empty_query_terms_witness:
  "set (str_split (str_lower ''  '')) = {}
 \<and> search_all (store_of [doc_alpha, doc_beta]) (expand_query ''  '')
     = Inr [doc_alpha, doc_beta, doc_alpha, doc_beta, doc_alpha, doc_beta]
 \<and> rank_results
      (deduplicate_results example_hash
         [doc_alpha, doc_beta, doc_alpha, doc_beta, doc_alpha, doc_beta]) ''  ''
     = Inl ZeroDivisionError
 \<and> ContextualRetrieverStrategy_retrieve example_hash ''  '' (store_of [doc_alpha, doc_beta])
     = BasicRetrieverStrategy_retrieve ''  '' (store_of [doc_alpha, doc_beta])
 \<and> BasicRetrieverStrategy_retrieve ''  '' (store_of [doc_alpha, doc_beta]) = [doc_alpha, doc_beta]
 \<and> search_all (store_of []) (expand_query ''  '') = Inr []
 \<and> ContextualRetrieverStrategy_retrieve example_hash ''  '' (store_of []) = []"
proof -
  have t: "set (str_split (str_lower ''  '')) = {}" by code_simp
  have s: "search_all (store_of [doc_alpha, doc_beta]) (expand_query ''  '')
             = Inr [doc_alpha, doc_beta, doc_alpha, doc_beta, doc_alpha, doc_beta]"
    by code_simp
  have s0: "search_all (store_of []) (expand_query ''  '') = Inr []" by code_simp
  have basic: "BasicRetrieverStrategy_retrieve ''  '' (store_of [doc_alpha, doc_beta])
                 = [doc_alpha, doc_beta]"
    by (simp add: BasicRetrieverStrategy_retrieve_def store_of_def)
  from contextual_empty_query_terms[OF t s, of example_hash]
  have a: "rank_results
      (deduplicate_results example_hash
         [doc_alpha, doc_beta, doc_alpha, doc_beta, doc_alpha, doc_beta]) ''  ''
     = Inl ZeroDivisionError"
    and b: "ContextualRetrieverStrategy_retrieve example_hash ''  '' (store_of [doc_alpha, doc_beta])
     = BasicRetrieverStrategy_retrieve ''  '' (store_of [doc_alpha, doc_beta])"
    by simp_all
  from contextual_empty_query_terms[OF t s0, of example_hash]
  have c: "ContextualRetrieverStrategy_retrieve example_hash ''  '' (store_of []) = []"
    by simp
  from t s a b basic s0 c show ?thesis by (intro conjI)
qed

text \<open>
  The claim as first stated fails on an empty knowledge base: the query of two spaces has no
  term, the ranking returns normally, and the body of the strategy completes without any
  exception for its handler.
\<close>

theorem contextual_empty_query_terms_counterexample:
  "set (str_split (str_lower ''  '')) = {}
 \<and> rank_results (deduplicate_results example_hash []) ''  '' = Inr []
 \<and> contextual_retrieve_body example_hash ''  '' (store_of []) = Inr []"
  by code_simp

subsection \<open>The factories\<close>



subsection \<open>The agent\<close>

text \<open>
  Claim C3: when the configured retrieval strategy returns the empty sequence,
  \<open>ask_question\<close> returns exactly the fixed sentence, \<open>ask_question_stream\<close> yields exactly
  that one fragment, and the language model adapter is not called: the only call made is the
  retrieval.
\<close>

theorem ask_question_no_documents:
  assumes "retriever self question (vector_store self) = Inr []"
  shows "PDFQAAgent_ask_question format_3f self question
           = (''I couldn'' @ [CHR 0x27] @
              ''t find any relevant information in the knowledge base to answer your question.'',
              [Call_retrieve question])
       \<and> PDFQAAgent_ask_question_stream format_3f self question
           = ([''I couldn'' @ [CHR 0x27] @
               ''t find any relevant information in the knowledge base to answer your question.''],
              [Call_retrieve question])
       \<and> (\<forall>p c. Call_generate_response p c
                   \<notin> set (snd (PDFQAAgent_ask_question format_3f self question))
                 \<and> Call_generate_response p c
                   \<notin> set (snd (PDFQAAgent_ask_question_stream format_3f self question)))"
  using assms
  by (simp add: PDFQAAgent_ask_question_def PDFQAAgent_ask_question_stream_def
      no_information_message_def)

theorem ask_question_no_documents_witness:
  "retriever (agent_with example_libraries (store_of [])) ''what is alpha''
     (vector_store (agent_with example_libraries (store_of []))) = Inr []
 \<and> PDFQAAgent_ask_question format_3f_example (agent_with example_libraries (store_of []))
      ''what is alpha''
     = (''I couldn'' @ [CHR 0x27] @
        ''t find any relevant information in the knowledge base to answer your question.'',
        [Call_retrieve ''what is alpha''])
 \<and> PDFQAAgent_ask_question_stream format_3f_example (agent_with example_libraries (store_of []))
      ''what is alpha''
     = ([''I couldn'' @ [CHR 0x27] @
         ''t find any relevant information in the knowledge base to answer your question.''],
        [Call_retrieve ''what is alpha''])"
proof -
  let ?a = "agent_with example_libraries (store_of [])"
  have h: "retriever ?a ''what is alpha'' (vector_store ?a) = Inr []"
    by code_simp
  from ask_question_no_documents[OF h, of format_3f_example] h
  show ?thesis by (intro conjI) simp_all
qed

text \<open>
  Claim C6: \<open>process_pdf\<close> of the agent returns a truth value in every case. It returns false
  when the processing pipeline raises (extraction or chunking), when the pipeline gives no
  chunk, and when the vector store's \<open>add_documents\<close> raises; it returns true only when the
  pipeline gave at least one chunk and these chunks were passed to \<open>add_documents\<close>, which
  returned.
\<close>

theorem process_pdf_outcome:
  "(\<forall>e. pages file_path = Inl e \<longrightarrow> \<not> fst (PDFQAAgent_process_pdf self file_path))
 \<and> (\<forall>txt n e. PDFProcessor_extract_text file_path = Inr txt \<and> st_size file_path = Inr n
        \<and> chunk_text (chunking_strategy (pdf_processor self)) txt
             [(''filename'', VStr (path_name file_path)),
              (''file_path'', VStr (path_str file_path)),
              (''file_size'', VInt (int n)), (''source_type'', VStr ''pdf'')] = Inl e
        \<longrightarrow> \<not> fst (PDFQAAgent_process_pdf self file_path))
 \<and> (\<forall>e. PDFProcessor_process_pdf (pdf_processor self) file_path = Inl e
        \<longrightarrow> \<not> fst (PDFQAAgent_process_pdf self file_path))
 \<and> (PDFProcessor_process_pdf (pdf_processor self) file_path = Inr []
        \<longrightarrow> \<not> fst (PDFQAAgent_process_pdf self file_path))
 \<and> (\<forall>chunks e. PDFProcessor_process_pdf (pdf_processor self) file_path = Inr chunks
        \<and> add_documents (vector_store self) chunks = Inl e
        \<longrightarrow> \<not> fst (PDFQAAgent_process_pdf self file_path))
 \<and> (fst (PDFQAAgent_process_pdf self file_path) \<longrightarrow>
       (\<exists>chunks. chunks \<noteq> []
          \<and> PDFProcessor_process_pdf (pdf_processor self) file_path = Inr chunks
          \<and> add_documents (vector_store self) chunks = Inr ()
          \<and> snd (PDFQAAgent_process_pdf self file_path)
              = [Call_process_pdf (path_str file_path), Call_add_documents chunks]))"
proof -
  have raised: "\<not> fst (PDFQAAgent_process_pdf self file_path)"
    if "PDFProcessor_process_pdf (pdf_processor self) file_path = Inl e" for e
    using that by (simp add: PDFQAAgent_process_pdf_def)
  have extraction: "\<not> fst (PDFQAAgent_process_pdf self file_path)"
    if "pages file_path = Inl e" for e
    using that process_pdf_pipeline_raises[of file_path "pdf_processor self"] raised by blast
  have chunking: "\<not> fst (PDFQAAgent_process_pdf self file_path)"
    if "PDFProcessor_extract_text file_path = Inr t \<and> st_size file_path = Inr n
        \<and> chunk_text (chunking_strategy (pdf_processor self)) t
             [(''filename'', VStr (path_name file_path)),
              (''file_path'', VStr (path_str file_path)),
              (''file_size'', VInt (int n)), (''source_type'', VStr ''pdf'')] = Inl e"
    for t n e
    using that process_pdf_pipeline_raises[of file_path "pdf_processor self"] raised by blast
  have rest: "(PDFProcessor_process_pdf (pdf_processor self) file_path = Inr []
        \<longrightarrow> \<not> fst (PDFQAAgent_process_pdf self file_path))
   \<and> (\<forall>chunks e. PDFProcessor_process_pdf (pdf_processor self) file_path = Inr chunks
        \<and> add_documents (vector_store self) chunks = Inl e
        \<longrightarrow> \<not> fst (PDFQAAgent_process_pdf self file_path))
   \<and> (fst (PDFQAAgent_process_pdf self file_path) \<longrightarrow>
       (\<exists>chunks. chunks \<noteq> []
          \<and> PDFProcessor_process_pdf (pdf_processor self) file_path = Inr chunks
          \<and> add_documents (vector_store self) chunks = Inr ()
          \<and> snd (PDFQAAgent_process_pdf self file_path)
              = [Call_process_pdf (path_str file_path), Call_add_documents chunks]))"
    by (auto simp: PDFQAAgent_process_pdf_def split: sum.splits)
  from extraction chunking raised rest show ?thesis by blast
qed

theorem process_pdf_outcome_witness:
  "fst (PDFQAAgent_process_pdf (agent_with example_libraries (store_of [])) example_file)
 \<and> (\<exists>chunks. chunks \<noteq> []
      \<and> PDFProcessor_process_pdf (pdf_processor (agent_with example_libraries (store_of [])))
           example_file = Inr chunks
      \<and> snd (PDFQAAgent_process_pdf (agent_with example_libraries (store_of [])) example_file)
          = [Call_process_pdf ''docs/a.pdf'', Call_add_documents chunks])
 \<and> PDFProcessor_process_pdf (pdf_processor (agent_with example_libraries (store_of [])))
      blank_file = Inr []
 \<and> \<not> fst (PDFQAAgent_process_pdf (agent_with example_libraries (store_of [])) blank_file)
 \<and> PDFProcessor_process_pdf (pdf_processor (agent_with example_libraries (store_of [])))
      unreadable_file = Inl (LibraryError ''not a PDF file'')
 \<and> \<not> fst (PDFQAAgent_process_pdf (agent_with example_libraries (store_of [])) unreadable_file)
 \<and> \<not> fst (PDFQAAgent_process_pdf (agent_with example_libraries broken_store) example_file)
 \<and> chunk_text (chunking_strategy (pdf_processor semantic_agent))
      (NL @ ''--- Page 1 ---'' @ NL @ ''Hello world'')
      [(''filename'', VStr (path_name example_file)), (''file_path'', VStr (path_str example_file)),
       (''file_size'', VInt (int 11)), (''source_type'', VStr ''pdf'')]
     = Inl (LibraryError ''embedding model unavailable'')
 \<and> \<not> fst (PDFQAAgent_process_pdf semantic_agent example_file)"
proof -
  let ?a = "agent_with example_libraries (store_of [])"
  let ?b = "agent_with example_libraries broken_store"
  have ok: "fst (PDFQAAgent_process_pdf ?a example_file)" by code_simp
  have blank: "PDFProcessor_process_pdf (pdf_processor ?a) blank_file = Inr []" by code_simp
  have bad: "PDFProcessor_process_pdf (pdf_processor ?a) unreadable_file
               = Inl (LibraryError ''not a PDF file'')" by code_simp
  have p: "path_str example_file = ''docs/a.pdf''" by (simp add: example_file_def)
  have chunks: "\<exists>chunks. PDFProcessor_process_pdf (pdf_processor ?b) example_file = Inr chunks
                  \<and> add_documents (vector_store ?b) chunks = Inl (LibraryError ''database is locked'')"
  proof -
    have "PDFProcessor_process_pdf (pdf_processor ?b) example_file
            = Inr [\<lparr>content = NL @ ''--- Page 1 ---'' @ NL @ ''Hello world'',
                    metadata = [(''filename'', VStr ''a.pdf''), (''file_path'', VStr ''docs/a.pdf''),
                                (''file_size'', VInt 11), (''source_type'', VStr ''pdf''),
                                (''chunk_id'', VInt 0), (''chunk_size'', VInt 27),
                                (''chunking_strategy'', VStr ''hybrid'')]\<rparr>]"
      by code_simp
    then show ?thesis by (simp add: agent_with_def broken_store_def)
  qed
  from process_pdf_outcome[where self = ?a and file_path = example_file] ok p
  have 1: "\<exists>chunks. chunks \<noteq> []
      \<and> PDFProcessor_process_pdf (pdf_processor ?a) example_file = Inr chunks
      \<and> snd (PDFQAAgent_process_pdf ?a example_file)
          = [Call_process_pdf ''docs/a.pdf'', Call_add_documents chunks]"
    by auto
  from process_pdf_outcome[where self = ?a and file_path = blank_file] blank
  have 2: "\<not> fst (PDFQAAgent_process_pdf ?a blank_file)" by blast
  from process_pdf_outcome[where self = ?b and file_path = example_file] chunks
  have 4: "\<not> fst (PDFQAAgent_process_pdf ?b example_file)" by blast
  have pg: "pages unreadable_file = Inl (LibraryError ''not a PDF file'')"
    by (simp add: unreadable_file_def)
  from process_pdf_outcome[where self = ?a and file_path = unreadable_file] pg
  have 3: "\<not> fst (PDFQAAgent_process_pdf ?a unreadable_file)" by blast
  have ex: "PDFProcessor_extract_text example_file = Inr (NL @ ''--- Page 1 ---'' @ NL @ ''Hello world'')"
    by code_simp
  have sz: "st_size example_file = Inr 11" by (simp add: example_file_def)
  have ch: "chunk_text (chunking_strategy (pdf_processor semantic_agent))
      (NL @ ''--- Page 1 ---'' @ NL @ ''Hello world'')
      [(''filename'', VStr (path_name example_file)), (''file_path'', VStr (path_str example_file)),
       (''file_size'', VInt (int 11)), (''source_type'', VStr ''pdf'')]
     = Inl (LibraryError ''embedding model unavailable'')"
    by (simp add: semantic_agent_def SemanticChunkingStrategy_chunk_text_def
        new_SemanticChunkingStrategy_def failing_libraries_def failing_splitter_def)
  from process_pdf_outcome[where self = semantic_agent and file_path = example_file] ex sz ch
  have 5: "\<not> fst (PDFQAAgent_process_pdf semantic_agent example_file)" by blast
  from ok 1 blank 2 bad 3 4 ch 5 show ?thesis by (intro conjI)
qed

text \<open>
  Claim C7: \<open>clear_knowledge_base\<close> deletes the collection and then replaces the agent's
  vector store handle with a freshly constructed one before it returns true. When the
  deletion raises it returns false, the constructor is not called and the agent keeps its
  handle; when the construction raises it returns false as well. It returns true only
  after a deletion that returned, with the constructed handle in place.
\<close>

theorem clear_knowledge_base_outcome:
  "(\<forall>e. delete_collection (vector_store self) = Inl e \<longrightarrow>
      PDFQAAgent_clear_knowledge_base new_store self = (False, self, [Call_delete_collection]))
 \<and> (\<forall>e. delete_collection (vector_store self) = Inr () \<and> new_store = Inl e \<longrightarrow>
      PDFQAAgent_clear_knowledge_base new_store self
        = (False, self, [Call_delete_collection, Call_ChromaVectorStore]))
 \<and> (\<forall>fresh. delete_collection (vector_store self) = Inr () \<and> new_store = Inr fresh \<longrightarrow>
      PDFQAAgent_clear_knowledge_base new_store self
        = (True, self\<lparr>vector_store := fresh\<rparr>, [Call_delete_collection, Call_ChromaVectorStore]))
 \<and> (fst (PDFQAAgent_clear_knowledge_base new_store self) \<longrightarrow>
      delete_collection (vector_store self) = Inr ()
      \<and> new_store = Inr (vector_store (fst (snd (PDFQAAgent_clear_knowledge_base new_store self)))))"
  by (auto simp: PDFQAAgent_clear_knowledge_base_def split: sum.splits)

theorem clear_knowledge_base_outcome_witness:
  "delete_collection (vector_store (agent_with example_libraries (store_of [doc_alpha]))) = Inr ()
 \<and> PDFQAAgent_clear_knowledge_base (Inr (store_of []))
      (agent_with example_libraries (store_of [doc_alpha]))
     = (True, (agent_with example_libraries (store_of [doc_alpha]))\<lparr>vector_store := store_of []\<rparr>,
        [Call_delete_collection, Call_ChromaVectorStore])
 \<and> PDFQAAgent_clear_knowledge_base (Inl (LibraryError ''database is locked''))
      (agent_with example_libraries (store_of [doc_alpha]))
     = (False, agent_with example_libraries (store_of [doc_alpha]),
        [Call_delete_collection, Call_ChromaVectorStore])
 \<and> delete_collection (vector_store (agent_with example_libraries broken_store))
     = Inl (LibraryError ''database is locked'')
 \<and> PDFQAAgent_clear_knowledge_base (Inr (store_of []))
      (agent_with example_libraries broken_store)
     = (False, agent_with example_libraries broken_store, [Call_delete_collection])"
proof -
  let ?a = "agent_with example_libraries (store_of [doc_alpha])"
  let ?b = "agent_with example_libraries broken_store"
  have d: "delete_collection (vector_store ?a) = Inr ()"
    by (simp add: agent_with_def store_of_def)
  have f: "delete_collection (vector_store ?b) = Inl (LibraryError ''database is locked'')"
    by (simp add: agent_with_def broken_store_def)
  from clear_knowledge_base_outcome[of ?a "Inr (store_of [])"] d
  have 1: "PDFQAAgent_clear_knowledge_base (Inr (store_of [])) ?a
     = (True, ?a\<lparr>vector_store := store_of []\<rparr>, [Call_delete_collection, Call_ChromaVectorStore])"
    by blast
  from clear_knowledge_base_outcome[of ?a "Inl (LibraryError ''database is locked'')"] d
  have 2: "PDFQAAgent_clear_knowledge_base (Inl (LibraryError ''database is locked'')) ?a
     = (False, ?a, [Call_delete_collection, Call_ChromaVectorStore])"
    by blast
  from clear_knowledge_base_outcome[of ?b "Inr (store_of [])"] f
  have 3: "PDFQAAgent_clear_knowledge_base (Inr (store_of [])) ?b
     = (False, ?b, [Call_delete_collection])"
    by blast
  from d 1 2 f 3 show ?thesis by (intro conjI)
qed

end
